theory Spec2Isabelle
  imports Main "HOL-Library.Sublist"
begin

section \<open>Strings\<close>

text \<open>
  Python strings are modelled as \<^typ>\<open>string\<close>, one \<^typ>\<open>char\<close> per code point
  (code points below 256). The substring test \<^verbatim>\<open>a in b\<close> is \<^const>\<open>sublist\<close>,
  \<^verbatim>\<open>b.startswith(a)\<close> is \<^const>\<open>prefix\<close>.
\<close>

definition NL :: char where
  "NL = CHR 0x0A"

definition CR :: char where
  "CR = CHR 0x0D"

definition DQUOTE :: char where
  "DQUOTE = CHR 0x22"

text \<open>\<^verbatim>\<open>str.isspace\<close> on the code points below 256.\<close>

definition is_space :: "char \<Rightarrow> bool" where
  "is_space c = (c \<in> set [CHR 0x09, CHR 0x0A, CHR 0x0B, CHR 0x0C, CHR 0x0D,
                           CHR 0x1C, CHR 0x1D, CHR 0x1E, CHR 0x1F, CHR 0x20,
                           CHR 0x85, CHR 0xA0])"

text \<open>\<^verbatim>\<open>s.strip(chars)\<close> with the set of characters given as a predicate.\<close>

definition strip_with :: "(char \<Rightarrow> bool) \<Rightarrow> string \<Rightarrow> string" where
  "strip_with p s = rev (dropWhile p (rev (dropWhile p s)))"

text \<open>\<^verbatim>\<open>s.strip()\<close>\<close>

definition strip :: "string \<Rightarrow> string" where
  "strip s = strip_with is_space s"

text \<open>\<^verbatim>\<open>s.split(c)\<close> for a one-character separator: never the empty list.\<close>

fun split_on :: "char \<Rightarrow> string \<Rightarrow> string list" where
  "split_on c [] = [[]]"
| "split_on c (x # xs) =
     (if x = c then [] # split_on c xs
      else (case split_on c xs of
              [] \<Rightarrow> [[x]]
            | y # ys \<Rightarrow> (x # y) # ys))"

text \<open>\<^verbatim>\<open>s.count(pat)\<close>: the number of non-overlapping occurrences, scanning from the left.\<close>

fun str_count :: "string \<Rightarrow> string \<Rightarrow> nat" where
  "str_count pat [] = (if pat = [] then 1 else 0)"
| "str_count pat (c # cs) =
     (if prefix pat (c # cs) then Suc (str_count pat (drop (length pat - 1) cs))
      else str_count pat cs)"

text \<open>
  \<^verbatim>\<open>os.path.join(a, b)\<close> on POSIX: an absolute second component replaces the first,
  otherwise the two are joined by one slash unless the first is empty or ends with one.
\<close>

definition path_join :: "string \<Rightarrow> string \<Rightarrow> string" where
  "path_join a b =
     (if prefix ''/'' b then b
      else if a = [] \<or> last a = CHR ''/'' then a @ b
      else a @ ''/'' @ b)"

subsection \<open>Reading an integer\<close>

definition is_digit :: "char \<Rightarrow> bool" where
  "is_digit c = (c \<in> set ''0123456789'')"

definition digit_val :: "char \<Rightarrow> nat" where
  "digit_val c = of_char c - 48"

text \<open>
  The digits of a decimal literal as \<^verbatim>\<open>int()\<close> reads them: single underscores are
  allowed between digits. \<open>us\<close> records that the previous character was an underscore.
\<close>

fun int_digits :: "nat \<Rightarrow> bool \<Rightarrow> string \<Rightarrow> nat option" where
  "int_digits acc us [] = (if us then None else Some acc)"
| "int_digits acc us (c # cs) =
     (if is_digit c then int_digits (10 * acc + digit_val c) False cs
      else if c = CHR ''_'' \<and> \<not> us then int_digits acc True cs
      else None)"

definition int_body :: "string \<Rightarrow> nat option" where
  "int_body s =
     (case s of
        [] \<Rightarrow> None
      | c # cs \<Rightarrow> if is_digit c then int_digits (digit_val c) False cs else None)"

text \<open>
  The whitespace that \<^verbatim>\<open>int()\<close> drops around a number: the ASCII whitespace of C and,
  beyond ASCII, the Unicode whitespace. The separators U+001C to U+001F, which
  \<^verbatim>\<open>str.isspace\<close> accepts, are not among them.
\<close>

definition int_space :: "char \<Rightarrow> bool" where
  "int_space c = (c \<in> set [CHR 0x09, CHR 0x0A, CHR 0x0B, CHR 0x0C, CHR 0x0D, CHR 0x20,
                            CHR 0x85, CHR 0xA0])"

text \<open>
  The interpreter refuses a decimal string with more digits than its limit (4300 unless
  configured, leading zeros counted, underscores not); the limit 0 means none, as in
  interpreters that have no such limit.
\<close>

definition within_digit_limit :: "nat \<Rightarrow> string \<Rightarrow> bool" where
  "within_digit_limit limit s = (limit = 0 \<or> length (filter is_digit s) \<le> limit)"

text \<open>
  \<^verbatim>\<open>int(s)\<close> for a string, base 10: surrounding whitespace is dropped, one sign is
  allowed; \<open>None\<close> stands for the \<^verbatim>\<open>ValueError\<close>.
\<close>

definition py_int :: "nat \<Rightarrow> string \<Rightarrow> int option" where
  "py_int limit s =
     (case strip_with int_space s of
        [] \<Rightarrow> None
      | c # cs \<Rightarrow>
          if \<not> within_digit_limit limit (c # cs) then None
          else if c = CHR ''-'' then map_option (\<lambda>n. - int n) (int_body cs)
          else if c = CHR ''+'' then map_option int (int_body cs)
          else map_option int (int_body (c # cs)))"

text \<open>
  \<^verbatim>\<open>f.readline()\<close> on a file opened in text mode: the first line, its line ending
  (\<^verbatim>\<open>\n\<close>, \<^verbatim>\<open>\r\<close> or \<^verbatim>\<open>\r\n\<close>) translated to \<^verbatim>\<open>\n\<close>.
\<close>

fun readline :: "string \<Rightarrow> string" where
  "readline [] = []"
| "readline (c # cs) = (if c = NL \<or> c = CR then [NL] else c # readline cs)"

section \<open>The world the program runs in\<close>

datatype error =
    ValueError
  | OverflowError
  | AttributeError
  | FileNotFoundError
  | NotADirectoryError
  | RuntimeError

text \<open>
  A filesystem entry: a directory, a readable file with its (decoded) text, or a file
  that \<^verbatim>\<open>open\<close> refuses with a permission error.
\<close>

datatype node = Dir | File string | Locked

text \<open>What \<^verbatim>\<open>os.kill(pid, 0)\<close> does: the signal is deliverable, the call raises
  \<^verbatim>\<open>OSError\<close> (no such process, no permission), or the pid does not fit the C type.\<close>

datatype kill_outcome = Delivered | KillOSError | KillOverflow

text \<open>
  What the program prints, one constructor per message; the four lines that
  \<^verbatim>\<open>run_command\<close> prints before it raises are one message.
\<close>

datatype msg =
    RemovedDirs nat string
  | ExcludingRunning "string list"
  | RemovedAuthDir string
  | ErrorRunningCommand "string list" string
  | RemovedImages nat
  | PrunedImages
  | Changed bool

type_synonym invocation = "string list \<times> int \<times> string"

text \<open>
  \<^item> \<open>fs\<close>: the filesystem, an association list from path strings to entries, in the
    order in which directory scans report them. The keys are paths as a scan builds
    them: no slash at the end, no \<^verbatim>\<open>.\<close> or \<^verbatim>\<open>..\<close> component, no doubled slash; a path
    handed to an operation is compared with them as a string, slashes at its end apart.
  \<^item> \<open>kill_result\<close>: the process table as seen through signal 0.
  \<^item> \<open>int_max_str_digits\<close>: the interpreter's limit on the digits of \<^verbatim>\<open>int()\<close>.
  \<^item> \<open>exec\<close>: the container runtime and every other executable: return code and decoded
    standard output of a command, given the invocations made so far.
  \<^item> \<open>cmd_log\<close>: the invocations made so far (command, return code, standard output).
  \<^item> \<open>out\<close>: what has been printed.
\<close>

record world =
  fs :: "(string \<times> node) list"
  kill_result :: "int \<Rightarrow> kill_outcome"
  int_max_str_digits :: nat
  exec :: "invocation list \<Rightarrow> string list \<Rightarrow> int \<times> string"
  cmd_log :: "invocation list"
  out :: "msg list"

text \<open>An exception leaves the function with the world as it is at that moment.\<close>

type_synonym 'a result = "(error \<times> world) + 'a"

subsection \<open>Filesystem operations\<close>

text \<open>Some component of the path below which \<open>p\<close> lies is not a directory.\<close>

definition under_file :: "(string \<times> node) list \<Rightarrow> string \<Rightarrow> bool" where
  "under_file t p = list_ex (\<lambda>(q, n). n \<noteq> Dir \<and> prefix (q @ ''/'') p) t"

definition missing_error :: "(string \<times> node) list \<Rightarrow> string \<Rightarrow> error" where
  "missing_error t p = (if under_file t p then NotADirectoryError else FileNotFoundError)"

text \<open>\<^verbatim>\<open>open(p, 'r')\<close> and reading: every failure is an \<^verbatim>\<open>IOError\<close>, here \<open>None\<close>.\<close>

definition open_read :: "(string \<times> node) list \<Rightarrow> string \<Rightarrow> string option" where
  "open_read t p = (case map_of t p of Some (File c) \<Rightarrow> Some c | _ \<Rightarrow> None)"

definition children :: "(string \<times> node) list \<Rightarrow> string \<Rightarrow> string list" where
  "children t p =
     remdups (filter (\<lambda>n. n \<noteq> [] \<and> CHR ''/'' \<notin> set n)
        (map (\<lambda>(q, n). drop (Suc (length p)) q)
           (filter (\<lambda>(q, n). prefix (p @ ''/'') q) t)))"

text \<open>\<^verbatim>\<open>os.listdir(p)\<close>\<close>

definition listdir :: "(string \<times> node) list \<Rightarrow> string \<Rightarrow> error + string list" where
  "listdir t p =
     (case map_of t p of
        Some Dir \<Rightarrow> Inr (children t p)
      | Some _ \<Rightarrow> Inl NotADirectoryError
      | None \<Rightarrow> Inl (missing_error t p))"

text \<open>A path without the slashes at its end (the root stays).\<close>

definition deslash :: "string \<Rightarrow> string" where
  "deslash p =
     (let q = rev (dropWhile (\<lambda>c. c = CHR ''/'') (rev p))
      in if q = [] \<and> p \<noteq> [] then ''/'' else q)"

text \<open>
  \<^verbatim>\<open>shutil.rmtree(p)\<close>: a directory goes with everything below it; anything else raises.
  (Permissions on directories are not modelled.)
\<close>

definition rmtree :: "(string \<times> node) list \<Rightarrow> string \<Rightarrow> error + (string \<times> node) list" where
  "rmtree t p =
     (let d = deslash p in
      case map_of t d of
        Some Dir \<Rightarrow> Inr (filter (\<lambda>(q, n). q \<noteq> d \<and> \<not> prefix (d @ ''/'') q) t)
      | Some _ \<Rightarrow> Inl NotADirectoryError
      | None \<Rightarrow> Inl (missing_error t d))"

text \<open>
  \<^verbatim>\<open>glob.iglob(pattern)\<close>: the existing paths that the pattern matches, in scan order.
  The matching of a pattern against a path is the library's and is a parameter \<open>gm\<close>.
  For a pattern that ends with a slash the library yields the directories that match
  the pattern without it, each with a slash at its end.
  All matches of one pattern have the same number of components, so removing one match
  does not change which other paths match; the list is taken when the loop starts.
\<close>

definition iglob :: "(string \<Rightarrow> string \<Rightarrow> bool) \<Rightarrow> string \<Rightarrow> (string \<times> node) list \<Rightarrow> string list" where
  "iglob gm pattern t =
     (if pattern \<noteq> [] \<and> last pattern = CHR ''/''
      then map (\<lambda>d. path_join d [])
             (filter (\<lambda>d. gm (deslash pattern) d \<and> map_of t d = Some Dir) (map fst t))
      else filter (gm pattern) (map fst t))"

section \<open>cleanup.py\<close>

subsection \<open>run_command\<close>

definition run_command :: "string list \<Rightarrow> world \<Rightarrow> (string \<times> world) result" where
  "run_command cmd w =
     (case exec w (cmd_log w) cmd of
        (returncode, stdout) \<Rightarrow>
          let w1 = w\<lparr>cmd_log := cmd_log w @ [(cmd, returncode, stdout)]\<rparr>
          in if returncode \<noteq> 0
             then Inl (RuntimeError, w1\<lparr>out := out w1 @ [ErrorRunningCommand cmd stdout]\<rparr>)
             else Inr (strip stdout, w1))"

subsection \<open>is_alive\<close>

text \<open>The function returns \<^verbatim>\<open>False\<close>, \<^verbatim>\<open>0\<close> or \<^verbatim>\<open>1\<close>; the caller tests truthiness.\<close>

datatype pyval = PyBool bool | PyInt int

fun truthy :: "pyval \<Rightarrow> bool" where
  "truthy (PyBool b) = b"
| "truthy (PyInt i) = (i \<noteq> 0)"

definition is_alive :: "world \<Rightarrow> string \<Rightarrow> error + pyval" where
  "is_alive w dir =
     (let pidfile = path_join dir ''pid'' in
      case open_read (fs w) pidfile of
        None \<Rightarrow> Inr (PyBool False)
      | Some content \<Rightarrow>
          (case py_int (int_max_str_digits w) (readline content) of
             None \<Rightarrow> Inl ValueError
           | Some pid \<Rightarrow>
               (case kill_result w pid of
                  Delivered \<Rightarrow> Inr (PyInt 0)
                | KillOSError \<Rightarrow> Inr (PyInt 1)
                | KillOverflow \<Rightarrow> Inl OverflowError)))"

subsection \<open>_get_idents_from_pdd\<close>

definition get_idents_from_pdd :: "world \<Rightarrow> string \<Rightarrow> error + string list" where
  "get_idents_from_pdd w dir =
     (case listdir (fs w) (path_join dir ''artifacts'') of
        Inr names \<Rightarrow> Inr names
      | Inl FileNotFoundError \<Rightarrow> Inr []
      | Inl e \<Rightarrow> Inl e)"

subsection \<open>cleanup_dirs\<close>

text \<open>The variables of the first loop, with the world.\<close>

record pass1 =
  wld :: world
  ct :: nat
  running_idents :: "string list"
  deleted_idents :: "string list"

text \<open>\<^verbatim>\<open>any(ident in dir for ident in exclude_idents)\<close>\<close>

definition excluded :: "string list \<Rightarrow> string \<Rightarrow> bool" where
  "excluded exclude_idents dir = list_ex (\<lambda>ident. sublist ident dir) exclude_idents"

fun dirs_loop :: "string list \<Rightarrow> string list \<Rightarrow> pass1 \<Rightarrow> pass1 result" where
  "dirs_loop exclude_idents [] s = Inr s"
| "dirs_loop exclude_idents (dir # rest) s =
     (if excluded exclude_idents dir then dirs_loop exclude_idents rest s
      else
        case get_idents_from_pdd (wld s) dir of
          Inl e \<Rightarrow> Inl (e, wld s)
        | Inr dir_idents \<Rightarrow>
            (case is_alive (wld s) dir of
               Inl e \<Rightarrow> Inl (e, wld s)
             | Inr alive \<Rightarrow>
                 if truthy alive
                 then dirs_loop exclude_idents rest
                        (s\<lparr>running_idents := running_idents s @ dir_idents\<rparr>)
                 else
                   (case rmtree (fs (wld s)) dir of
                      Inl e \<Rightarrow> Inl (e, wld s)
                    | Inr t \<Rightarrow>
                        dirs_loop exclude_idents rest
                          (s\<lparr>deleted_idents := deleted_idents s @ dir_idents,
                             wld := (wld s)\<lparr>fs := t\<rparr>,
                             ct := ct s + 1\<rparr>))))"

text \<open>
  \<^verbatim>\<open>ident_re.match(dir)\<close> with \<^verbatim>\<open>^/tmp/{prefix}(?P<ident>.*)_.*?$\<close>, for a prefix
  without regular-expression metacharacters: after \<^verbatim>\<open>/tmp/\<close> and the prefix, and leaving
  one final newline aside, the rest must be free of newlines and contain an underscore;
  the identifier is what stands before the last underscore. \<open>None\<close> is the failed match.
\<close>

definition auth_ident :: "string \<Rightarrow> string \<Rightarrow> string option" where
  "auth_ident registry_auth_prefix dir =
     (let head = ''/tmp/'' @ registry_auth_prefix in
      if \<not> prefix head dir then None
      else
        let s = drop (length head) dir;
            body = (if s \<noteq> [] \<and> last s = NL then butlast s else s)
        in if NL \<in> set body \<or> CHR ''_'' \<notin> set body then None
           else Some (rev (tl (dropWhile (\<lambda>c. c \<noteq> CHR ''_'') (rev body)))))"

fun auth_loop ::
  "string \<Rightarrow> string list \<Rightarrow> string list \<Rightarrow> string list \<Rightarrow> string list \<Rightarrow> world \<Rightarrow> world result"
where
  "auth_loop pfx exclude_idents running deleted [] w = Inr w"
| "auth_loop pfx exclude_idents running deleted (dir # rest) w =
     (case auth_ident pfx dir of
        None \<Rightarrow> Inl (AttributeError, w)
      | Some ident \<Rightarrow>
          if ident \<in> set exclude_idents \<or> ident \<in> set running
          then auth_loop pfx exclude_idents running deleted rest w
          else if ident \<in> set deleted
          then
            (case rmtree (fs w) dir of
               Inl e \<Rightarrow> Inl (e, w)
             | Inr t \<Rightarrow>
                 auth_loop pfx exclude_idents running deleted rest
                   (w\<lparr>fs := t, out := out w @ [RemovedAuthDir dir]\<rparr>))
          else auth_loop pfx exclude_idents running deleted rest w)"

definition print_if :: "bool \<Rightarrow> msg \<Rightarrow> world \<Rightarrow> world" where
  "print_if b m w = (if b then w\<lparr>out := out w @ [m]\<rparr> else w)"

text \<open>
  \<open>gm\<close> is the glob matcher, \<open>pfx\<close> the constant \<^verbatim>\<open>registry_auth_prefix\<close> of
  \<^verbatim>\<open>ansible_runner.defaults\<close>.
\<close>

definition cleanup_dirs ::
  "(string \<Rightarrow> string \<Rightarrow> bool) \<Rightarrow> string \<Rightarrow> string \<Rightarrow> string list \<Rightarrow> world \<Rightarrow> (nat \<times> world) result"
where
  "cleanup_dirs gm pfx pattern exclude_idents w =
     (case dirs_loop exclude_idents (iglob gm pattern (fs w))
             \<lparr>wld = w, ct = 0, running_idents = [], deleted_idents = []\<rparr> of
        Inl e \<Rightarrow> Inl e
      | Inr s \<Rightarrow>
          (let w1 = print_if (ct s \<noteq> 0) (RemovedDirs (ct s) pattern) (wld s);
               w2 = print_if (running_idents s \<noteq> []) (ExcludingRunning (running_idents s)) w1;
               registry_auth_pattern = ''/tmp/'' @ pfx @ ''*_*''
           in (case auth_loop pfx exclude_idents (running_idents s) (deleted_idents s)
                     (iglob gm registry_auth_pattern (fs w2)) w2 of
                 Inl e \<Rightarrow> Inl e
               | Inr w3 \<Rightarrow> Inr (ct s, w3))))"

subsection \<open>cleanup_images\<close>

definition images_cmd :: "string \<Rightarrow> string \<Rightarrow> string list" where
  "images_cmd runtime image_tag =
     [runtime, ''images'',
      ''--format='' @ [DQUOTE] @ ''{{.Repository}}:{{.Tag}}'' @ [DQUOTE], image_tag]"

definition rmi_cmd :: "string \<Rightarrow> string \<Rightarrow> string list" where
  "rmi_cmd runtime discovered_tag =
     [runtime, ''rmi'', strip_with (\<lambda>c. c = DQUOTE) (strip discovered_tag), ''-f'']"

text \<open>The inner loop, over the lines of the listing.\<close>

fun rmi_loop :: "string \<Rightarrow> string list \<Rightarrow> nat \<Rightarrow> world \<Rightarrow> (nat \<times> world) result" where
  "rmi_loop runtime [] rm_ct w = Inr (rm_ct, w)"
| "rmi_loop runtime (discovered_tag # rest) rm_ct w =
     (case run_command (rmi_cmd runtime discovered_tag) w of
        Inl e \<Rightarrow> Inl e
      | Inr (stdout, w1) \<Rightarrow>
          rmi_loop runtime rest (rm_ct + str_count ''Untagged:'' stdout) w1)"

text \<open>The outer loop, over the requested tags.\<close>

fun images_loop :: "string \<Rightarrow> string list \<Rightarrow> nat \<Rightarrow> world \<Rightarrow> (nat \<times> world) result" where
  "images_loop runtime [] rm_ct w = Inr (rm_ct, w)"
| "images_loop runtime (image_tag # rest) rm_ct w =
     (case run_command (images_cmd runtime image_tag) w of
        Inl e \<Rightarrow> Inl e
      | Inr (stdout, w1) \<Rightarrow>
          if stdout = [] then images_loop runtime rest rm_ct w1
          else
            (case rmi_loop runtime (split_on NL stdout) rm_ct w1 of
               Inl e \<Rightarrow> Inl e
             | Inr (rm_ct', w2) \<Rightarrow> images_loop runtime rest rm_ct' w2))"

definition cleanup_images :: "string list \<Rightarrow> string \<Rightarrow> world \<Rightarrow> (nat \<times> world) result" where
  "cleanup_images images runtime w =
     (case images_loop runtime images 0 w of
        Inl e \<Rightarrow> Inl e
      | Inr (rm_ct, w1) \<Rightarrow> Inr (rm_ct, print_if (rm_ct \<noteq> 0) (RemovedImages rm_ct) w1))"

subsection \<open>prune_images\<close>

definition prune_cmd :: "string \<Rightarrow> string list" where
  "prune_cmd runtime = [runtime, ''image'', ''prune'', ''-f'']"

definition prune_images :: "string \<Rightarrow> world \<Rightarrow> (bool \<times> world) result" where
  "prune_images runtime w =
     (case run_command (prune_cmd runtime) w of
        Inl e \<Rightarrow> Inl e
      | Inr (stdout, w1) \<Rightarrow>
          if stdout = [] \<or> stdout = ''Total reclaimed space: 0B'' then Inr (False, w1)
          else Inr (True, w1\<lparr>out := out w1 @ [PrunedImages]\<rparr>))"

subsection \<open>comma_sep_parse and run_cleanup\<close>

text \<open>
  The option dictionary. A key that is absent or \<^verbatim>\<open>None\<close> is \<open>None\<close>; the keys of
  \<^verbatim>\<open>comma_sep_parse\<close> are the selectors.
\<close>

record vargs =
  file_pattern :: "string option"
  exclude_idents :: "string option"
  remove_images :: "string option"
  image_prune :: bool
  process_isolation_executable :: string

text \<open>Truthiness of \<^verbatim>\<open>vargs.get(key)\<close> for a string option.\<close>

definition supplied :: "string option \<Rightarrow> bool" where
  "supplied v = (case v of None \<Rightarrow> False | Some s \<Rightarrow> s \<noteq> [])"

definition comma_sep_parse :: "vargs \<Rightarrow> (vargs \<Rightarrow> string option) \<Rightarrow> string list" where
  "comma_sep_parse v key =
     (if supplied (key v) then split_on (CHR '','') (the (key v)) else [])"

definition run_cleanup ::
  "(string \<Rightarrow> string \<Rightarrow> bool) \<Rightarrow> string \<Rightarrow> vargs \<Rightarrow> world \<Rightarrow> world result"
where
  "run_cleanup gm pfx v w =
     (let excl = comma_sep_parse v exclude_idents;
          imgs = comma_sep_parse v remove_images
      in
      case (if supplied (file_pattern v)
            then cleanup_dirs gm pfx (the (file_pattern v)) excl w
            else Inr (0, w)) of
        Inl e \<Rightarrow> Inl e
      | Inr (dir_ct, w1) \<Rightarrow>
          (case (if imgs \<noteq> []
                 then cleanup_images imgs (process_isolation_executable v) w1
                 else Inr (0, w1)) of
             Inl e \<Rightarrow> Inl e
           | Inr (image_ct, w2) \<Rightarrow>
               (case (if image_prune v
                      then prune_images (process_isolation_executable v) w2
                      else Inr (False, w2)) of
                  Inl e \<Rightarrow> Inl e
                | Inr (pruned, w3) \<Rightarrow>
                    Inr (w3\<lparr>out := out w3 @
                              [Changed (dir_ct \<noteq> 0 \<or> image_ct \<noteq> 0 \<or> pruned)]\<rparr>))))"

section \<open>Notions used in the statements\<close>

text \<open>\<open>q\<close> is \<open>p\<close> or lies below it: what \<^const>\<open>rmtree\<close> of \<open>p\<close> takes away.\<close>

definition below :: "string \<Rightarrow> string \<Rightarrow> bool" where
  "below p q = (q = deslash p \<or> prefix (deslash p @ ''/'') q)"



definition auth_matches ::
  "(string \<Rightarrow> string \<Rightarrow> bool) \<Rightarrow> string \<Rightarrow> (string \<times> node) list \<Rightarrow> string list"
where
  "auth_matches gm pfx t = iglob gm (''/tmp/'' @ pfx @ ''*_*'') t"

text \<open>
  What one iteration of the first loop does with a directory \<open>d\<close> that it reaches in
  state \<open>s\<close>: it deletes \<open>d\<close>, \<open>X\<close> being one of the identifiers read from it, or it
  finds \<open>d\<close> running, \<open>X\<close> being one of its identifiers.
\<close>

definition deletes_at :: "string list \<Rightarrow> string \<Rightarrow> pass1 \<Rightarrow> string \<Rightarrow> bool" where
  "deletes_at excl d s X =
     (\<not> excluded excl d \<and>
      (\<exists>ids a t. get_idents_from_pdd (wld s) d = Inr ids \<and> X \<in> set ids \<and>
                 is_alive (wld s) d = Inr a \<and> \<not> truthy a \<and>
                 rmtree (fs (wld s)) d = Inr t))"

definition finds_running_at :: "string list \<Rightarrow> string \<Rightarrow> pass1 \<Rightarrow> string \<Rightarrow> bool" where
  "finds_running_at excl d s X =
     (\<not> excluded excl d \<and>
      (\<exists>ids a. get_idents_from_pdd (wld s) d = Inr ids \<and> X \<in> set ids \<and>
               is_alive (wld s) d = Inr a \<and> truthy a))"

text \<open>
  \<open>X\<close> is an identifier of a directory deleted, or found running, in the run of the
  first loop on \<open>ds\<close> from state \<open>s\<close>: the loop comes to some \<open>d\<close> of \<open>ds\<close> in a state
  \<open>sm\<close> and does so there.
\<close>

definition deleted_in_pass :: "string list \<Rightarrow> string list \<Rightarrow> pass1 \<Rightarrow> string \<Rightarrow> bool" where
  "deleted_in_pass excl ds s X =
     (\<exists>pre d post sm. ds = pre @ d # post \<and> dirs_loop excl pre s = Inr sm \<and>
                       deletes_at excl d sm X)"

definition running_in_pass :: "string list \<Rightarrow> string list \<Rightarrow> pass1 \<Rightarrow> string \<Rightarrow> bool" where
  "running_in_pass excl ds s X =
     (\<exists>pre d post sm. ds = pre @ d # post \<and> dirs_loop excl pre s = Inr sm \<and>
                       finds_running_at excl d sm X)"

text \<open>An invocation of the runtime's forced image removal.\<close>

definition is_rmi :: "invocation \<Rightarrow> bool" where
  "is_rmi call =
     (case fst call of
        [runtime, sub, tag, flag] \<Rightarrow> sub = ''rmi'' \<and> flag = ''-f''
      | _ \<Rightarrow> False)"

text \<open>
  The occurrences of the marker in the output of the removal invocations of a log, the
  output taken as \<^const>\<open>run_command\<close> returns it.
\<close>

definition untagged_total :: "invocation list \<Rightarrow> nat" where
  "untagged_total calls =
     sum_list (map (\<lambda>call. str_count ''Untagged:'' (strip (snd (snd call))))
                 (filter is_rmi calls))"

text \<open>
  The invocations that \<^const>\<open>cleanup_images\<close> makes for one requested tag: the listing,
  which succeeds, and then, unless the listing is empty, one successful removal for each
  of its lines, in their order.
\<close>

definition tag_segment :: "string \<Rightarrow> string \<Rightarrow> invocation list \<Rightarrow> bool" where
  "tag_segment runtime image_tag seg =
     (\<exists>raw rmis.
        seg = (images_cmd runtime image_tag, 0, raw) # rmis \<and>
        map fst rmis =
          (if strip raw = [] then []
           else map (rmi_cmd runtime) (split_on NL (strip raw))) \<and>
        list_all (\<lambda>call. fst (snd call) = 0) rmis)"


section \<open>Example worlds\<close>

text \<open>
  A glob matcher for patterns whose only wildcard is \<^verbatim>\<open>*\<close>; it instantiates \<open>gm\<close> in
  the examples. The wildcard does not cross a slash and, at the start of a component,
  does not match a name that begins with a dot. The flag says that a component starts.
\<close>

fun star_from :: "bool \<Rightarrow> string \<Rightarrow> string \<Rightarrow> bool" where
  "star_from b [] s = (s = [])"
| "star_from b (p # ps) [] = (p = CHR ''*'' \<and> star_from b ps [])"
| "star_from b (p # ps) (c # cs) =
     (if p = CHR ''*''
      then (if b \<and> c = CHR ''.'' then False
            else if star_from False ps (c # cs) then True
            else c \<noteq> CHR ''/'' \<and> star_from False (p # ps) cs)
      else p = c \<and> star_from (c = CHR ''/'') ps cs)"

definition star_match :: "string \<Rightarrow> string \<Rightarrow> bool" where
  "star_match pattern path = star_from True pattern path"

definition example_prefix :: string where
  "example_prefix = ''ansible_runner_registry_''"

text \<open>A runtime that knows one image with two tags, and has nothing to prune.\<close>

definition example_exec :: "invocation list \<Rightarrow> string list \<Rightarrow> int \<times> string" where
  "example_exec history cmd =
     (if cmd = images_cmd ''podman'' ''myimg:latest''
        then (0, [DQUOTE] @ ''quay.io/u/myimg:latest'' @ [DQUOTE, NL])
      else if cmd = images_cmd ''podman'' ''absent:tag''
        then (0, [NL])
      else if cmd = [''podman'', ''rmi'', ''quay.io/u/myimg:latest'', ''-f'']
        then (0, ''Untagged: quay.io/u/myimg:latest'' @ [NL] @
                 ''Untagged: quay.io/u/myimg:old'' @ [NL])
      else if cmd = prune_cmd ''podman''
        then (0, ''Total reclaimed space: 0B'' @ [NL])
      else (1, ''unknown command''))"

text \<open>
  The scenario of the specification: \<^verbatim>\<open>/tmp/run-A\<close> belongs to a finished job (no
  process 111) with identifier \<^verbatim>\<open>j1\<close>, \<^verbatim>\<open>/tmp/run-B\<close> to a running one (process 222)
  with identifier \<^verbatim>\<open>j2\<close>; each job has a credential directory.
\<close>

definition scenario_world :: world where
  "scenario_world =
     \<lparr>fs = [(''/tmp'', Dir),
            (''/tmp/run-A'', Dir),
            (''/tmp/run-A/pid'', File (''111'' @ [NL])),
            (''/tmp/run-A/artifacts'', Dir),
            (''/tmp/run-A/artifacts/j1'', Dir),
            (''/tmp/run-B'', Dir),
            (''/tmp/run-B/pid'', File (''222'' @ [NL])),
            (''/tmp/run-B/artifacts'', Dir),
            (''/tmp/run-B/artifacts/j2'', Dir),
            (''/tmp/ansible_runner_registry_j1_ab'', Dir),
            (''/tmp/ansible_runner_registry_j2_cd'', Dir)],
      kill_result = (\<lambda>pid. if pid = 222 then Delivered else KillOSError),
      int_max_str_digits = 4300,
      exec = example_exec,
      cmd_log = [],
      out = []\<rparr>"

text \<open>\<^verbatim>\<open>/tmp/run-C\<close> has no pid file, the pid file of \<^verbatim>\<open>/tmp/run-D\<close> holds no number.\<close>

definition pidfile_world :: world where
  "pidfile_world =
     \<lparr>fs = [(''/tmp'', Dir),
            (''/tmp/run-C'', Dir),
            (''/tmp/run-C/artifacts'', Dir),
            (''/tmp/run-C/artifacts/j3'', Dir),
            (''/tmp/run-D'', Dir),
            (''/tmp/run-D/pid'', File ''abc'')],
      kill_result = (\<lambda>pid. KillOSError),
      int_max_str_digits = 4300,
      exec = example_exec,
      cmd_log = [],
      out = []\<rparr>"


text \<open>A pid file whose number is followed by the separator U+001C.\<close>

definition separator_world :: world where
  "separator_world =
     \<lparr>fs = [(''/tmp'', Dir),
            (''/tmp/run-E'', Dir),
            (''/tmp/run-E/pid'', File (''1172'' @ [CHR 0x1C, NL]))],
      kill_result = (\<lambda>pid. Delivered),
      int_max_str_digits = 4300,
      exec = example_exec,
      cmd_log = [],
      out = []\<rparr>"

text \<open>A credential directory whose name has a line break in it.\<close>

definition newline_world :: world where
  "newline_world =
     \<lparr>fs = [(''/tmp'', Dir),
            (''/tmp/ansible_runner_registry_a_b'' @ [NL] @ ''c'', Dir)],
      kill_result = (\<lambda>pid. KillOSError),
      int_max_str_digits = 4300,
      exec = example_exec,
      cmd_log = [],
      out = []\<rparr>"

definition example_vargs :: vargs where
  "example_vargs =
     \<lparr>file_pattern = Some ''/tmp/run-*'',
      exclude_idents = None,
      remove_images = Some ''absent:tag,myimg:latest'',
      image_prune = True,
      process_isolation_executable = ''podman''\<rparr>"

text \<open>What is left of the scenario's filesystem after the run on \<^verbatim>\<open>/tmp/run-*\<close>.\<close>

definition scenario_fs_left :: "(string \<times> node) list" where
  "scenario_fs_left =
     [(''/tmp'', Dir),
      (''/tmp/run-A'', Dir),
      (''/tmp/run-A/pid'', File (''111'' @ [NL])),
      (''/tmp/run-A/artifacts'', Dir),
      (''/tmp/run-A/artifacts/j1'', Dir),
      (''/tmp/ansible_runner_registry_j1_ab'', Dir)]"

text \<open>The runtime invocations that removing the two example tags makes.\<close>

definition example_image_calls :: "invocation list" where
  "example_image_calls =
     [(images_cmd ''podman'' ''absent:tag'', 0, [NL]),
      (images_cmd ''podman'' ''myimg:latest'', 0,
         [DQUOTE] @ ''quay.io/u/myimg:latest'' @ [DQUOTE, NL]),
      ([''podman'', ''rmi'', ''quay.io/u/myimg:latest'', ''-f''], 0,
         ''Untagged: quay.io/u/myimg:latest'' @ [NL] @
         ''Untagged: quay.io/u/myimg:old'' @ [NL])]"

text \<open>No option given, and an exclusion list with a trailing comma.\<close>

definition idle_vargs :: vargs where
  "idle_vargs =
     \<lparr>file_pattern = None,
      exclude_idents = None,
      remove_images = None,
      image_prune = False,
      process_isolation_executable = ''podman''\<rparr>"

definition trailing_comma_vargs :: vargs where
  "trailing_comma_vargs =
     \<lparr>file_pattern = Some ''/tmp/run-*'',
      exclude_idents = Some ''j9,'',
      remove_images = None,
      image_prune = False,
      process_isolation_executable = ''podman''\<rparr>"

section \<open>Properties\<close>

subsection \<open>Strings\<close>

lemma split_on_not_Nil [simp]: "split_on c s \<noteq> []"
  by (induction s) (auto split: list.splits)

lemma split_on_append_sep: "split_on c (a @ c # b) = split_on c a @ split_on c b"
proof (induction a)
  case Nil
  then show ?case by simp
next
  case (Cons x a)
  obtain y ys where y: "split_on c a = y # ys"
    by (cases "split_on c a") auto
  with Cons show ?case by simp
qed

text \<open>A trailing or a doubled separator gives an empty item.\<close>

lemma split_on_trailing: "[] \<in> set (split_on c (s @ [c]))"
  by (simp add: split_on_append_sep)

lemma split_on_doubled: "[] \<in> set (split_on c (a @ [c, c] @ b))"
  by (simp add: split_on_append_sep)

text \<open>What \<^const>\<open>py_int\<close> reads and what it refuses.\<close>

lemma py_int_examples:
  "py_int 4300 (''222'' @ [NL]) = Some 222"
  "py_int 4300 ('' +1_000'' @ [CHR 0xA0]) = Some 1000"
  "py_int 4300 ''-0012'' = Some (- 12)"
  "py_int 4300 (''1172'' @ [CHR 0x1C, NL]) = None"
  "py_int 4300 ''1__0'' = None"
  "py_int 4300 ''12_'' = None"
  "py_int 4300 ''+ 1'' = None"
  "py_int 4300 [] = None"
  "py_int 3 ''0012'' = None"
  "py_int 3 ''0_1_2'' = Some 12"
  "py_int 0 ''0012'' = Some 12"
  by (simp_all add: py_int_def strip_with_def int_space_def within_digit_limit_def
        int_body_def is_digit_def digit_val_def NL_def)

subsection \<open>The filesystem\<close>


text \<open>A path is at or below itself, whatever slashes it ends with.\<close>

lemma deslash_cases:
  "deslash p = p \<or> prefix (deslash p @ ''/'') p"
proof -
  let ?k = "takeWhile (\<lambda>c. c = CHR ''/'') (rev p)"
  let ?q = "dropWhile (\<lambda>c. c = CHR ''/'') (rev p)"
  have p: "p = rev ?q @ rev ?k"
    using takeWhile_dropWhile_id[of "\<lambda>c. c = CHR ''/''" "rev p"]
    by (metis rev_append rev_rev_ident)
  have k: "\<forall>c\<in>set ?k. c = CHR ''/''"
    by (auto dest: set_takeWhileD)
  show ?thesis
  proof (cases "?k = []")
    case True
    with p have "p = rev ?q" by simp
    then show ?thesis by (auto simp: deslash_def Let_def)
  next
    case False
    then obtain c cs where kc: "rev ?k = c # cs"
      by (cases "rev ?k") auto
    then have "c \<in> set ?k"
      by (metis list.set_intros(1) set_rev)
    with k have c: "c = CHR ''/''" by blast
    show ?thesis
    proof (cases "?q = []")
      case q: False
      then have "deslash p = rev ?q" by (auto simp: deslash_def Let_def)
      moreover have "prefix (rev ?q @ ''/'') (rev ?q @ rev ?k)"
        using kc c by simp
      ultimately show ?thesis using p by metis
    next
      case q: True
      with p kc c have pp: "p = CHR ''/'' # cs" by simp
      then have d: "deslash p = ''/''" using q by (auto simp: deslash_def Let_def)
      show ?thesis
      proof (cases cs)
        case Nil
        with pp d show ?thesis by simp
      next
        case (Cons x xs)
        have "x \<in> set (rev ?k)" using kc Cons by simp
        then have "x = CHR ''/''" using k by simp
        with pp d Cons show ?thesis by simp
      qed
    qed
  qed
qed

lemma below_self [simp]: "below p p"
  using deslash_cases[of p] by (auto simp: below_def)


lemma rmtree_is_dir: "rmtree t p = Inr t' \<Longrightarrow> map_of t (deslash p) = Some Dir"
  by (auto simp: rmtree_def Let_def split: option.splits node.splits)


lemma open_read_None_iff:
  "open_read t p = None \<longleftrightarrow>
     (map_of t p = None \<or> map_of t p = Some Dir \<or> map_of t p = Some Locked)"
  by (auto simp: open_read_def split: option.splits node.splits)

subsection \<open>The liveness check\<close>

lemma is_alive_no_pidfile:
  "open_read (fs w) (path_join dir ''pid'') = None \<Longrightarrow> is_alive w dir = Inr (PyBool False)"
  by (simp add: is_alive_def)

lemma is_alive_delivered:
  assumes "open_read (fs w) (path_join dir ''pid'') = Some content"
      and "py_int (int_max_str_digits w) (readline content) = Some pid"
      and "kill_result w pid = Delivered"
  shows "is_alive w dir = Inr (PyInt 0)"
  using assms by (simp add: is_alive_def)

lemma is_alive_no_process:
  assumes "open_read (fs w) (path_join dir ''pid'') = Some content"
      and "py_int (int_max_str_digits w) (readline content) = Some pid"
      and "kill_result w pid = KillOSError"
  shows "is_alive w dir = Inr (PyInt 1)"
  using assms by (simp add: is_alive_def)

subsection \<open>The first loop\<close>

lemma excluded_empty_ident: "[] \<in> set excl \<Longrightarrow> excluded excl dir"
  by (auto simp: excluded_def list_ex_iff)

lemma dirs_loop_all_excluded:
  "\<forall>d\<in>set ds. excluded excl d \<Longrightarrow> dirs_loop excl ds s = Inr s"
  by (induction ds) auto


lemma dirs_loop_filter:
  "dirs_loop excl ds s = dirs_loop excl (filter (\<lambda>d. \<not> excluded excl d) ds) s"
  by (induction ds arbitrary: s) (auto split: sum.splits)

text \<open>
  One iteration at a directory that is not skipped, by the answer of the probe: when the
  signal is delivered the directory is removed, when the probe raises it is kept.
\<close>

lemma dirs_loop_delivered:
  assumes "\<not> excluded excl dir"
      and "get_idents_from_pdd (wld s) dir = Inr ids"
      and "open_read (fs (wld s)) (path_join dir ''pid'') = Some content"
      and "py_int (int_max_str_digits (wld s)) (readline content) = Some pid"
      and "kill_result (wld s) pid = Delivered"
      and "rmtree (fs (wld s)) dir = Inr t"
  shows "dirs_loop excl (dir # rest) s =
         dirs_loop excl rest
           (s\<lparr>deleted_idents := deleted_idents s @ ids,
              wld := (wld s)\<lparr>fs := t\<rparr>, ct := ct s + 1\<rparr>)"
  using assms by (simp add: is_alive_delivered)

lemma dirs_loop_no_process:
  assumes "\<not> excluded excl dir"
      and "get_idents_from_pdd (wld s) dir = Inr ids"
      and "open_read (fs (wld s)) (path_join dir ''pid'') = Some content"
      and "py_int (int_max_str_digits (wld s)) (readline content) = Some pid"
      and "kill_result (wld s) pid = KillOSError"
  shows "dirs_loop excl (dir # rest) s =
         dirs_loop excl rest (s\<lparr>running_idents := running_idents s @ ids\<rparr>)"
  using assms by (simp add: is_alive_no_process)





lemma deleted_in_pass_Nil [simp]: "\<not> deleted_in_pass excl [] s X"
  by (simp add: deleted_in_pass_def)

lemma running_in_pass_Nil [simp]: "\<not> running_in_pass excl [] s X"
  by (simp add: running_in_pass_def)





subsection \<open>The second loop\<close>



text \<open>With no identifier deleted, the second loop changes nothing.\<close>

lemma auth_loop_nothing_deleted_exact:
  "auth_loop pfx excl running [] ds w =
     (if list_all (\<lambda>d. auth_ident pfx d \<noteq> None) ds then Inr w else Inl (AttributeError, w))"
  by (induction ds) (auto split: option.splits)



lemma print_if_out_auth [simp]:
  "RemovedAuthDir d \<notin> set (out (print_if b (ExcludingRunning r) (print_if c (RemovedDirs k p) w)))
     \<longleftrightarrow> RemovedAuthDir d \<notin> set (out w)"
  by (simp add: print_if_def)

lemma print_if_fs [simp]: "fs (print_if b m w) = fs w"
  by (simp add: print_if_def)


subsection \<open>Commands\<close>


lemma is_rmi_rmi_cmd [simp]: "is_rmi (rmi_cmd runtime tag, rc, raw)"
  by (simp add: is_rmi_def rmi_cmd_def)

lemma is_rmi_images_cmd [simp]: "\<not> is_rmi (images_cmd runtime tag, rc, raw)"
  by (simp add: is_rmi_def images_cmd_def)


lemma untagged_total_Nil [simp]: "untagged_total [] = 0"
  by (simp add: untagged_total_def)

lemma untagged_total_rmi [simp]:
  "untagged_total [(rmi_cmd runtime tag, rc, raw)] = str_count ''Untagged:'' (strip raw)"
  by (simp add: untagged_total_def)

lemma untagged_total_images [simp]:
  "untagged_total [(images_cmd runtime tag, rc, raw)] = 0"
  by (simp add: untagged_total_def)

lemma print_if_cmd_log [simp]: "cmd_log (print_if b m w) = cmd_log w"
  by (simp add: print_if_def)






lemma tag_segment_resolved:
  assumes "tag_segment runtime image_tag seg"
      and "strip (snd (snd (hd seg))) \<noteq> []"
  shows "map fst (tl seg) = map (rmi_cmd runtime) (split_on NL (strip (snd (snd (hd seg))))) \<and>
         tl seg \<noteq> []"
  using assms by (auto simp: tag_segment_def)

subsection \<open>Evaluation\<close>

lemmas fs_eval =
  iglob_def excluded_def get_idents_from_pdd_def listdir_def children_def is_alive_def
  path_join_def open_read_def py_int_def strip_def strip_with_def is_space_def int_body_def
  int_space_def within_digit_limit_def deslash_def star_match_def
  is_digit_def digit_val_def NL_def CR_def DQUOTE_def rmtree_def print_if_def auth_ident_def
  example_prefix_def missing_error_def under_file_def Let_def

lemmas cmd_eval =
  run_command_def example_exec_def images_cmd_def rmi_cmd_def prune_cmd_def
  cleanup_images_def prune_images_def

text \<open>
  A pattern that ends with a slash yields the matching directories with a slash at
  their end, and \<^const>\<open>rmtree\<close> takes such a path.
\<close>

lemma trailing_slash_example:
  "iglob star_match ''/tmp/run-*/'' (fs scenario_world) = [''/tmp/run-A/'', ''/tmp/run-B/'']"
  "cleanup_dirs star_match example_prefix ''/tmp/run-*/'' [] scenario_world =
     Inr (1, scenario_world
               \<lparr>fs := scenario_fs_left,
                out := [RemovedDirs 1 ''/tmp/run-*/'', ExcludingRunning [''j1''],
                        RemovedAuthDir ''/tmp/ansible_runner_registry_j2_cd'']\<rparr>)"
  by (simp_all add: cleanup_dirs_def scenario_world_def scenario_fs_left_def fs_eval)

section \<open>The claims\<close>

text \<open>
  C1. For every matched directory that the exclusion test does not skip: if signalling
  its recorded process id succeeds (the process is alive), \<open>cleanup_dirs\<close> does not
  remove the directory and adds its identifiers to the still-running set.

  The code does the opposite. In the scenario of the specification process 222 of
  \<^verbatim>\<open>/tmp/run-B\<close> is alive: \<open>os.kill\<close> succeeds, \<open>is_alive\<close> returns 0, which is false,
  and the run removes \<^verbatim>\<open>/tmp/run-B\<close> and the credential directory of its job \<^verbatim>\<open>j2\<close>,
  counts one removal and reports \<^verbatim>\<open>j1\<close>, the finished job, as running.
\<close>

theorem live_process_dir_is_removed:
  "kill_result scenario_world 222 = Delivered \<and>
   is_alive scenario_world ''/tmp/run-B'' = Inr (PyInt 0) \<and>
   cleanup_dirs star_match example_prefix ''/tmp/run-*'' [] scenario_world =
     Inr (1, scenario_world
               \<lparr>fs := scenario_fs_left,
                out := [RemovedDirs 1 ''/tmp/run-*'', ExcludingRunning [''j1''],
                        RemovedAuthDir ''/tmp/ansible_runner_registry_j2_cd'']\<rparr>) \<and>
   map_of scenario_fs_left ''/tmp/run-B'' = None"
proof -
  have a: "kill_result scenario_world 222 = Delivered"
    by (simp add: scenario_world_def)
  have b: "is_alive scenario_world ''/tmp/run-B'' = Inr (PyInt 0)"
    by (simp add: scenario_world_def fs_eval)
  have c: "cleanup_dirs star_match example_prefix ''/tmp/run-*'' [] scenario_world =
     Inr (1, scenario_world
               \<lparr>fs := scenario_fs_left,
                out := [RemovedDirs 1 ''/tmp/run-*'', ExcludingRunning [''j1''],
                        RemovedAuthDir ''/tmp/ansible_runner_registry_j2_cd'']\<rparr>)"
    by (simp add: cleanup_dirs_def scenario_world_def scenario_fs_left_def fs_eval)
  have d: "map_of scenario_fs_left ''/tmp/run-B'' = None"
    by (simp add: scenario_fs_left_def)
  from a b c d show ?thesis by simp
qed

text \<open>
  C2. For every matched directory that the exclusion test does not skip: if signalling
  its recorded process id fails with an OS error (the process does not exist),
  \<open>cleanup_dirs\<close> deletes the directory, adds its identifiers to the deleted set and
  counts it.

  The code does the opposite. Process 111 of \<^verbatim>\<open>/tmp/run-A\<close> does not exist: \<open>os.kill\<close>
  raises, \<open>is_alive\<close> returns 1, which is true, and the run on \<^verbatim>\<open>/tmp/run-A*\<close> leaves
  the directory in place, returns the count 0 and reports \<^verbatim>\<open>j1\<close> as running.
\<close>

theorem dead_process_dir_is_kept:
  "kill_result scenario_world 111 = KillOSError \<and>
   is_alive scenario_world ''/tmp/run-A'' = Inr (PyInt 1) \<and>
   iglob star_match ''/tmp/run-A*'' (fs scenario_world) = [''/tmp/run-A''] \<and>
   cleanup_dirs star_match example_prefix ''/tmp/run-A*'' [] scenario_world =
     Inr (0, scenario_world\<lparr>out := [ExcludingRunning [''j1'']]\<rparr>)"
proof -
  have a: "kill_result scenario_world 111 = KillOSError"
    by (simp add: scenario_world_def)
  have b: "is_alive scenario_world ''/tmp/run-A'' = Inr (PyInt 1)"
    by (simp add: scenario_world_def fs_eval)
  have c: "iglob star_match ''/tmp/run-A*'' (fs scenario_world) = [''/tmp/run-A'']"
    by (simp add: scenario_world_def fs_eval)
  have d: "cleanup_dirs star_match example_prefix ''/tmp/run-A*'' [] scenario_world =
     Inr (0, scenario_world\<lparr>out := [ExcludingRunning [''j1'']]\<rparr>)"
    by (simp add: cleanup_dirs_def scenario_world_def fs_eval)
  from a b c d show ?thesis by simp
qed










text \<open>
  C7. In the liveness check, if the pid file exists but its first line is not an
  integer, the error reaches the caller as a fatal error; it is not taken for a "not
  alive" answer. \<open>is_alive\<close> raises \<^verbatim>\<open>ValueError\<close>, and the loop of \<open>cleanup_dirs\<close>
  that called it stops with this error, the world as it was. The first line is not an
  integer when \<open>py_int\<close> refuses it: \<^verbatim>\<open>abc\<close>, an empty line, a number followed by the
  separator U+001C, more digits than the interpreter allows.
\<close>

theorem is_alive_malformed_pid:
  assumes "map_of (fs w) (path_join dir ''pid'') = Some (File content)"
      and "py_int (int_max_str_digits w) (readline content) = None"
  shows "is_alive w dir = Inl ValueError \<and>
         (\<not> excluded excl dir \<and> get_idents_from_pdd w dir = Inr ids \<longrightarrow>
            dirs_loop excl (dir # rest)
              \<lparr>wld = w, ct = n, running_idents = r, deleted_idents = dl\<rparr> =
            Inl (ValueError, w))"
proof -
  have a: "is_alive w dir = Inl ValueError"
    using assms by (simp add: is_alive_def open_read_def)
  then show ?thesis by simp
qed

theorem is_alive_malformed_pid_witness:
  "map_of (fs pidfile_world) (path_join ''/tmp/run-D'' ''pid'') = Some (File ''abc'') \<and>
   py_int (int_max_str_digits pidfile_world) (readline ''abc'') = None \<and>
   is_alive pidfile_world ''/tmp/run-D'' = Inl ValueError \<and>
   dirs_loop [] [''/tmp/run-D'']
     \<lparr>wld = pidfile_world, ct = 0, running_idents = [], deleted_idents = []\<rparr> =
     Inl (ValueError, pidfile_world) \<and>
   py_int (int_max_str_digits separator_world) (readline (''1172'' @ [CHR 0x1C, NL])) = None \<and>
   is_alive separator_world ''/tmp/run-E'' = Inl ValueError"
proof -
  have s1: "map_of (fs separator_world) (path_join ''/tmp/run-E'' ''pid'') =
              Some (File (''1172'' @ [CHR 0x1C, NL]))"
    by (simp add: separator_world_def fs_eval)
  have s2: "py_int (int_max_str_digits separator_world) (readline (''1172'' @ [CHR 0x1C, NL])) = None"
    by (simp add: separator_world_def fs_eval)
  from is_alive_malformed_pid[OF s1 s2, of "[]" "[]" "[]" 0 "[]" "[]"]
  have c3: "is_alive separator_world ''/tmp/run-E'' = Inl ValueError"
    by blast
  have h1: "map_of (fs pidfile_world) (path_join ''/tmp/run-D'' ''pid'') = Some (File ''abc'')"
    by (simp add: pidfile_world_def fs_eval)
  have h2: "py_int (int_max_str_digits pidfile_world) (readline ''abc'') = None"
    by (simp add: pidfile_world_def fs_eval)
  have h3: "\<not> excluded [] ''/tmp/run-D''"
    by (simp add: excluded_def)
  have h4: "get_idents_from_pdd pidfile_world ''/tmp/run-D'' = Inr []"
    by (simp add: pidfile_world_def fs_eval)
  note th = is_alive_malformed_pid[OF h1 h2, of "[]" "[]" "[]" 0 "[]" "[]"]
  from th have c1: "is_alive pidfile_world ''/tmp/run-D'' = Inl ValueError"
    by blast
  from th h3 h4 have c2: "dirs_loop [] [''/tmp/run-D'']
     \<lparr>wld = pidfile_world, ct = 0, running_idents = [], deleted_idents = []\<rparr> =
     Inl (ValueError, pidfile_world)"
    by blast
  show ?thesis
    using h1 h2 c1 c2 s2 c3 by (intro conjI)
qed

text \<open>
  C8. If the pid file of a matched directory does not exist or cannot be read, the
  liveness check answers "not alive" without raising, so that the directory is eligible
  for cleanup: \<open>is_alive\<close> returns \<open>False\<close>, and the loop of \<open>cleanup_dirs\<close>, at a
  directory it does not skip, removes the directory, counts it and records its
  identifiers as deleted.
\<close>

theorem is_alive_unreadable_pid:
  assumes "map_of (fs w) (path_join dir ''pid'') = None \<or>
           map_of (fs w) (path_join dir ''pid'') = Some Locked \<or>
           map_of (fs w) (path_join dir ''pid'') = Some Dir"
  shows "is_alive w dir = Inr (PyBool False) \<and>
         (\<not> excluded excl dir \<and> get_idents_from_pdd w dir = Inr ids \<and>
          rmtree (fs w) dir = Inr t \<longrightarrow>
            dirs_loop excl (dir # rest)
              \<lparr>wld = w, ct = n, running_idents = r, deleted_idents = dl\<rparr> =
            dirs_loop excl rest
              \<lparr>wld = w\<lparr>fs := t\<rparr>, ct = n + 1, running_idents = r,
               deleted_idents = dl @ ids\<rparr>)"
proof -
  have a: "is_alive w dir = Inr (PyBool False)"
    using assms by (auto simp: is_alive_def open_read_def)
  then show ?thesis by simp
qed

theorem is_alive_unreadable_pid_witness:
  "map_of (fs pidfile_world) (path_join ''/tmp/run-C'' ''pid'') = None \<and>
   is_alive pidfile_world ''/tmp/run-C'' = Inr (PyBool False) \<and>
   dirs_loop [] [''/tmp/run-C'']
     \<lparr>wld = pidfile_world, ct = 0, running_idents = [], deleted_idents = []\<rparr> =
     Inr \<lparr>wld = pidfile_world
                 \<lparr>fs := [(''/tmp'', Dir), (''/tmp/run-D'', Dir),
                         (''/tmp/run-D/pid'', File ''abc'')]\<rparr>,
          ct = 1, running_idents = [], deleted_idents = [''j3'']\<rparr>"
proof -
  let ?t = "[(''/tmp'', Dir), (''/tmp/run-D'', Dir), (''/tmp/run-D/pid'', File ''abc'')]"
  have h1: "map_of (fs pidfile_world) (path_join ''/tmp/run-C'' ''pid'') = None"
    by (simp add: pidfile_world_def fs_eval)
  then have h: "map_of (fs pidfile_world) (path_join ''/tmp/run-C'' ''pid'') = None \<or>
           map_of (fs pidfile_world) (path_join ''/tmp/run-C'' ''pid'') = Some Locked \<or>
           map_of (fs pidfile_world) (path_join ''/tmp/run-C'' ''pid'') = Some Dir"
    by (rule disjI1)
  have h3: "\<not> excluded [] ''/tmp/run-C''"
    by (simp add: excluded_def)
  have h4: "get_idents_from_pdd pidfile_world ''/tmp/run-C'' = Inr [''j3'']"
    by (simp add: pidfile_world_def fs_eval)
  have h5: "rmtree (fs pidfile_world) ''/tmp/run-C'' = Inr ?t"
    by (simp add: pidfile_world_def fs_eval)
  note th = is_alive_unreadable_pid[OF h, of "[]" "[''j3'']" ?t "[]" 0 "[]" "[]"]
  from th have c1: "is_alive pidfile_world ''/tmp/run-C'' = Inr (PyBool False)"
    by blast
  from th h3 h4 h5 have "dirs_loop [] [''/tmp/run-C'']
     \<lparr>wld = pidfile_world, ct = 0, running_idents = [], deleted_idents = []\<rparr> =
     dirs_loop [] []
       \<lparr>wld = pidfile_world\<lparr>fs := ?t\<rparr>, ct = 0 + 1, running_idents = [],
        deleted_idents = [] @ [''j3'']\<rparr>"
    by blast
  then have c2: "dirs_loop [] [''/tmp/run-C'']
     \<lparr>wld = pidfile_world, ct = 0, running_idents = [], deleted_idents = []\<rparr> =
     Inr \<lparr>wld = pidfile_world\<lparr>fs := ?t\<rparr>, ct = 1, running_idents = [],
          deleted_idents = [''j3'']\<rparr>"
    by simp
  from h1 c1 c2 show ?thesis by blast
qed

text \<open>
  C9. \<open>run_cleanup\<close> runs the directory cleanup only when \<^verbatim>\<open>file_pattern\<close> is
  supplied, the image removal only when \<^verbatim>\<open>remove_images\<close> is non-empty and the prune
  only when \<^verbatim>\<open>image_prune\<close> is set; it reports "changed" if and only if the count of
  removed directories is not zero, the count of untagged images is not zero, or the
  prune reclaimed space; with none of the three options it does nothing and reports
  "unchanged".

  A run that completes goes through three phases in this order, each either the
  operation on the world the phase before has left or, without its option, nothing at
  all; the last thing printed is the status, computed from the three results.
\<close>

theorem run_cleanup_phases:
  assumes "run_cleanup gm pfx v w = Inr w'"
  shows "\<exists>dir_ct image_ct pruned w1 w2 w3.
           (if supplied (file_pattern v)
            then cleanup_dirs gm pfx (the (file_pattern v)) (comma_sep_parse v exclude_idents) w
                   = Inr (dir_ct, w1)
            else dir_ct = 0 \<and> w1 = w) \<and>
           (if comma_sep_parse v remove_images \<noteq> []
            then cleanup_images (comma_sep_parse v remove_images)
                   (process_isolation_executable v) w1 = Inr (image_ct, w2)
            else image_ct = 0 \<and> w2 = w1) \<and>
           (if image_prune v
            then prune_images (process_isolation_executable v) w2 = Inr (pruned, w3)
            else \<not> pruned \<and> w3 = w2) \<and>
           w' = w3\<lparr>out := out w3 @ [Changed (dir_ct \<noteq> 0 \<or> image_ct \<noteq> 0 \<or> pruned)]\<rparr> \<and>
           (\<not> supplied (file_pattern v) \<and> \<not> supplied (remove_images v) \<and> \<not> image_prune v
              \<longrightarrow> w' = w\<lparr>out := out w @ [Changed False]\<rparr>)"
proof -
  let ?A = "if supplied (file_pattern v)
            then cleanup_dirs gm pfx (the (file_pattern v)) (comma_sep_parse v exclude_idents) w
            else Inr (0, w)"
  from assms obtain dir_ct w1 where A: "?A = Inr (dir_ct, w1)"
    by (cases ?A) (auto simp: run_cleanup_def Let_def)
  let ?B = "if comma_sep_parse v remove_images \<noteq> []
            then cleanup_images (comma_sep_parse v remove_images)
                   (process_isolation_executable v) w1
            else Inr (0, w1)"
  from assms A obtain image_ct w2 where B: "?B = Inr (image_ct, w2)"
    by (cases ?B) (auto simp: run_cleanup_def Let_def)
  let ?C = "if image_prune v
            then prune_images (process_isolation_executable v) w2
            else Inr (False, w2)"
  from assms A B obtain pruned w3 where C: "?C = Inr (pruned, w3)"
    by (cases ?C) (auto simp: run_cleanup_def Let_def)
  from assms A B C
  have w': "w' = w3\<lparr>out := out w3 @ [Changed (dir_ct \<noteq> 0 \<or> image_ct \<noteq> 0 \<or> pruned)]\<rparr>"
    by (simp add: run_cleanup_def Let_def)
  have a: "if supplied (file_pattern v)
           then cleanup_dirs gm pfx (the (file_pattern v)) (comma_sep_parse v exclude_idents) w
                  = Inr (dir_ct, w1)
           else dir_ct = 0 \<and> w1 = w"
    using A by (simp split: if_splits)
  have b: "if comma_sep_parse v remove_images \<noteq> []
           then cleanup_images (comma_sep_parse v remove_images)
                  (process_isolation_executable v) w1 = Inr (image_ct, w2)
           else image_ct = 0 \<and> w2 = w1"
    using B by (simp split: if_splits)
  have c: "if image_prune v
           then prune_images (process_isolation_executable v) w2 = Inr (pruned, w3)
           else \<not> pruned \<and> w3 = w2"
    using C by (simp split: if_splits)
  have none: "\<not> supplied (file_pattern v) \<and> \<not> supplied (remove_images v) \<and> \<not> image_prune v
              \<longrightarrow> w' = w\<lparr>out := out w @ [Changed False]\<rparr>"
    using a b c w' by (auto simp: comma_sep_parse_def)
  from a b c w' none show ?thesis by blast
qed

theorem run_cleanup_phases_witness:
  "run_cleanup star_match example_prefix example_vargs scenario_world =
     Inr (scenario_world
            \<lparr>fs := scenario_fs_left,
             cmd_log := example_image_calls @
                        [(prune_cmd ''podman'', 0, ''Total reclaimed space: 0B'' @ [NL])],
             out := [RemovedDirs 1 ''/tmp/run-*'', ExcludingRunning [''j1''],
                     RemovedAuthDir ''/tmp/ansible_runner_registry_j2_cd'',
                     RemovedImages 2, Changed True]\<rparr>) \<and>
   cleanup_dirs star_match example_prefix ''/tmp/run-*'' [] scenario_world =
     Inr (1, scenario_world
               \<lparr>fs := scenario_fs_left,
                out := [RemovedDirs 1 ''/tmp/run-*'', ExcludingRunning [''j1''],
                        RemovedAuthDir ''/tmp/ansible_runner_registry_j2_cd'']\<rparr>) \<and>
   (\<exists>w3. scenario_world
            \<lparr>fs := scenario_fs_left,
             cmd_log := example_image_calls @
                        [(prune_cmd ''podman'', 0, ''Total reclaimed space: 0B'' @ [NL])],
             out := [RemovedDirs 1 ''/tmp/run-*'', ExcludingRunning [''j1''],
                     RemovedAuthDir ''/tmp/ansible_runner_registry_j2_cd'',
                     RemovedImages 2, Changed True]\<rparr> =
          w3\<lparr>out := out w3 @ [Changed True]\<rparr>) \<and>
   run_cleanup star_match example_prefix idle_vargs scenario_world =
     Inr (scenario_world\<lparr>out := [Changed False]\<rparr>) \<and>
   scenario_world\<lparr>out := [Changed False]\<rparr> =
     scenario_world\<lparr>out := out scenario_world @ [Changed False]\<rparr>"
proof -
  let ?w' = "scenario_world
            \<lparr>fs := scenario_fs_left,
             cmd_log := example_image_calls @
                        [(prune_cmd ''podman'', 0, ''Total reclaimed space: 0B'' @ [NL])],
             out := [RemovedDirs 1 ''/tmp/run-*'', ExcludingRunning [''j1''],
                     RemovedAuthDir ''/tmp/ansible_runner_registry_j2_cd'',
                     RemovedImages 2, Changed True]\<rparr>"
  have hd: "cleanup_dirs star_match example_prefix ''/tmp/run-*'' [] scenario_world =
     Inr (1, scenario_world
               \<lparr>fs := scenario_fs_left,
                out := [RemovedDirs 1 ''/tmp/run-*'', ExcludingRunning [''j1''],
                        RemovedAuthDir ''/tmp/ansible_runner_registry_j2_cd'']\<rparr>)"
    by (simp add: cleanup_dirs_def scenario_world_def scenario_fs_left_def fs_eval)
  have ev: "supplied (file_pattern example_vargs)"
           "the (file_pattern example_vargs) = ''/tmp/run-*''"
           "comma_sep_parse example_vargs exclude_idents = []"
    by (simp_all add: example_vargs_def supplied_def comma_sep_parse_def)
  have h1: "run_cleanup star_match example_prefix example_vargs scenario_world =
     Inr (scenario_world
            \<lparr>fs := scenario_fs_left,
             cmd_log := example_image_calls @
                        [(prune_cmd ''podman'', 0, ''Total reclaimed space: 0B'' @ [NL])],
             out := [RemovedDirs 1 ''/tmp/run-*'', ExcludingRunning [''j1''],
                     RemovedAuthDir ''/tmp/ansible_runner_registry_j2_cd'',
                     RemovedImages 2, Changed True]\<rparr>)"
    by (simp add: run_cleanup_def example_vargs_def comma_sep_parse_def supplied_def
          cleanup_dirs_def scenario_world_def scenario_fs_left_def example_image_calls_def
          cmd_eval fs_eval)
  have h2: "run_cleanup star_match example_prefix idle_vargs scenario_world =
     Inr (scenario_world\<lparr>out := [Changed False]\<rparr>)"
    by (simp add: run_cleanup_def idle_vargs_def comma_sep_parse_def supplied_def
          scenario_world_def)
  have idle: "\<not> supplied (file_pattern idle_vargs) \<and> \<not> supplied (remove_images idle_vargs) \<and>
              \<not> image_prune idle_vargs"
    by (simp add: idle_vargs_def supplied_def)
  from run_cleanup_phases[OF h2] idle
  have c: "scenario_world\<lparr>out := [Changed False]\<rparr> =
           scenario_world\<lparr>out := out scenario_world @ [Changed False]\<rparr>"
    by blast
  from run_cleanup_phases[OF h1] obtain dir_ct image_ct pruned w1 w3 where
    A: "if supplied (file_pattern example_vargs)
        then cleanup_dirs star_match example_prefix (the (file_pattern example_vargs))
               (comma_sep_parse example_vargs exclude_idents) scenario_world = Inr (dir_ct, w1)
        else dir_ct = 0 \<and> w1 = scenario_world" and
    W: "?w' = w3\<lparr>out := out w3 @ [Changed (dir_ct \<noteq> 0 \<or> (image_ct::nat) \<noteq> 0 \<or> pruned)]\<rparr>"
    by blast
  from A ev hd have "dir_ct = 1"
    by simp
  with W have "?w' = w3\<lparr>out := out w3 @ [Changed True]\<rparr>"
    by simp
  then have last: "\<exists>w3. ?w' = w3\<lparr>out := out w3 @ [Changed True]\<rparr>"
    by blast
  from h1 hd last h2 c show ?thesis by blast
qed

text \<open>
  C10. If the comma-separated \<^verbatim>\<open>exclude_idents\<close> option yields an empty identifier
  (a trailing or doubled comma does), the empty string is a substring of every path, so
  for every pattern \<open>cleanup_dirs\<close> skips every matched directory, deletes nothing,
  credential directories included, and returns 0.

  As stated this fails in one respect: the second pass still reads the name of every
  directory that the credential pattern matches, and a name that the identifier
  pattern does not match (one with a line break after its last underscore) makes it
  raise \<^verbatim>\<open>AttributeError\<close> instead of returning.
\<close>

theorem empty_ident_run_aborts:
  "comma_sep_parse trailing_comma_vargs exclude_idents = [''j9'', []] \<and>
   auth_matches star_match example_prefix (fs newline_world) =
     [''/tmp/ansible_runner_registry_a_b'' @ [NL] @ ''c''] \<and>
   auth_ident example_prefix (''/tmp/ansible_runner_registry_a_b'' @ [NL] @ ''c'') = None \<and>
   cleanup_dirs star_match example_prefix ''/tmp/run-*''
     (comma_sep_parse trailing_comma_vargs exclude_idents) newline_world =
     Inl (AttributeError, newline_world)"
proof -
  have p: "comma_sep_parse trailing_comma_vargs exclude_idents = [''j9'', []]"
    by (simp add: comma_sep_parse_def supplied_def trailing_comma_vargs_def)
  have m: "auth_matches star_match example_prefix (fs newline_world) =
             [''/tmp/ansible_runner_registry_a_b'' @ [NL] @ ''c'']"
    by (simp add: auth_matches_def newline_world_def fs_eval)
  have i: "auth_ident example_prefix (''/tmp/ansible_runner_registry_a_b'' @ [NL] @ ''c'') = None"
    by (simp add: fs_eval)
  have r: "cleanup_dirs star_match example_prefix ''/tmp/run-*''
             (comma_sep_parse trailing_comma_vargs exclude_idents) newline_world =
             Inl (AttributeError, newline_world)"
    unfolding p by (simp add: cleanup_dirs_def newline_world_def fs_eval)
  from p m i r show ?thesis by blast
qed

text \<open>
  C10, amended. If the comma-separated \<^verbatim>\<open>exclude_idents\<close> option yields an empty
  identifier, then for every pattern \<open>cleanup_dirs\<close> skips every matched directory and
  deletes nothing, credential directories included; it returns 0, unless the name of a
  directory that the credential pattern matches is not matched by the identifier
  pattern: then it raises \<^verbatim>\<open>AttributeError\<close>, the world as untouched as when it returns.
\<close>

theorem empty_ident_skips_everything:
  assumes "[] \<in> set (comma_sep_parse v exclude_idents)"
  shows "cleanup_dirs gm pfx pattern (comma_sep_parse v exclude_idents) w =
           (if list_all (\<lambda>d. auth_ident pfx d \<noteq> None) (auth_matches gm pfx (fs w))
            then Inr (0, w) else Inl (AttributeError, w)) \<and>
         list_all (excluded (comma_sep_parse v exclude_idents)) (iglob gm pattern (fs w))"
proof -
  let ?excl = "comma_sep_parse v exclude_idents"
  let ?s0 = "\<lparr>wld = w, ct = 0, running_idents = [], deleted_idents = []\<rparr>"
  have all: "\<forall>d\<in>set (iglob gm pattern (fs w)). excluded ?excl d"
    using assms by (simp add: excluded_empty_ident)
  then have p1: "dirs_loop ?excl (iglob gm pattern (fs w)) ?s0 = Inr ?s0"
    by (rule dirs_loop_all_excluded)
  have cd: "cleanup_dirs gm pfx pattern ?excl w =
        (case auth_loop pfx ?excl [] [] (auth_matches gm pfx (fs w)) w of
           Inl e \<Rightarrow> Inl e | Inr w3 \<Rightarrow> Inr (0, w3))"
    by (simp add: cleanup_dirs_def p1 print_if_def auth_matches_def cong: sum.case_cong)
  have a: "cleanup_dirs gm pfx pattern ?excl w =
           (if list_all (\<lambda>d. auth_ident pfx d \<noteq> None) (auth_matches gm pfx (fs w))
            then Inr (0, w) else Inl (AttributeError, w))"
    unfolding cd by (simp add: auth_loop_nothing_deleted_exact)
  from a all show ?thesis by (simp add: list_all_iff)
qed

theorem empty_ident_skips_everything_witness:
  "comma_sep_parse trailing_comma_vargs exclude_idents = [''j9'', []] \<and>
   iglob star_match ''/tmp/run-*'' (fs scenario_world) = [''/tmp/run-A'', ''/tmp/run-B''] \<and>
   excluded (comma_sep_parse trailing_comma_vargs exclude_idents) ''/tmp/run-A'' \<and>
   excluded (comma_sep_parse trailing_comma_vargs exclude_idents) ''/tmp/run-B'' \<and>
   cleanup_dirs star_match example_prefix ''/tmp/run-*''
     (comma_sep_parse trailing_comma_vargs exclude_idents) scenario_world =
     Inr (0, scenario_world)"
proof -
  let ?excl = "comma_sep_parse trailing_comma_vargs exclude_idents"
  have p: "?excl = [''j9'', []]"
    by (simp add: comma_sep_parse_def supplied_def trailing_comma_vargs_def)
  then have h: "[] \<in> set ?excl"
    by simp
  have g: "iglob star_match ''/tmp/run-*'' (fs scenario_world) = [''/tmp/run-A'', ''/tmp/run-B'']"
    by (simp add: scenario_world_def fs_eval)
  have aux: "list_all (\<lambda>d. auth_ident example_prefix d \<noteq> None)
               (auth_matches star_match example_prefix (fs scenario_world))"
    by (simp add: auth_matches_def scenario_world_def fs_eval)
  note th = empty_ident_skips_everything[OF h, of star_match example_prefix "''/tmp/run-*''"
      scenario_world]
  from th aux have r: "cleanup_dirs star_match example_prefix ''/tmp/run-*'' ?excl scenario_world =
                  Inr (0, scenario_world)"
    by simp
  from th g have e1: "excluded ?excl ''/tmp/run-A''" and e2: "excluded ?excl ''/tmp/run-B''"
    by simp_all
  from p g e1 e2 r show ?thesis by blast
qed

end
